theory Spec2Isabelle
  imports Complex_Main "HOL-Library.Signed_Division"
begin

section \<open>Python values and errors\<close>

text \<open>
  The values of a status mapping are the scalars the device reports (strings, integers,
  booleans, null). Python strings are modelled as ASCII \<open>string\<close>s.
\<close>

datatype scalar = PNone | PBool bool | PInt int | PStr string

text \<open>The values of a command payload: a scalar, a list of integers, a list of dicts.\<close>

datatype pyval = Scalar scalar | IntList "int list" | DictList "(string \<rightharpoonup> scalar) list"

datatype error = KeyError string | ValueError | TypeError | IndexError

type_synonym status = "string \<rightharpoonup> scalar"

type_synonym payload = "string \<rightharpoonup> pyval"

text \<open>Python's \<open>==\<close> on scalars: \<open>True == 1\<close> and \<open>False == 0\<close> hold; a string equals only
  the same string, \<open>None\<close> only \<open>None\<close>.\<close>

fun py_eq :: "scalar \<Rightarrow> scalar \<Rightarrow> bool" where
  "py_eq PNone PNone = True"
| "py_eq (PBool a) (PBool b) = (a = b)"
| "py_eq (PBool a) (PInt i) = (i = (if a then 1 else 0))"
| "py_eq (PInt i) (PBool a) = (i = (if a then 1 else 0))"
| "py_eq (PInt i) (PInt j) = (i = j)"
| "py_eq (PStr s) (PStr t) = (s = t)"
| "py_eq _ _ = False"

text \<open>\<open>v in S\<close> for a collection \<open>S\<close> of strings: some member equals \<open>v\<close>.\<close>

definition py_in :: "scalar \<Rightarrow> string list \<Rightarrow> bool" where
  "py_in v S = list_ex (\<lambda>c. py_eq v (PStr c)) S"

text \<open>\<open>d[k]\<close>: a missing key raises KeyError.\<close>

definition py_getitem :: "status \<Rightarrow> string \<Rightarrow> error + scalar" where
  "py_getitem d k = (case d k of None \<Rightarrow> Inl (KeyError k) | Some v \<Rightarrow> Inr v)"

text \<open>\<open>d.get(k)\<close>: a missing key gives \<open>None\<close>.\<close>

definition py_get :: "status \<Rightarrow> string \<Rightarrow> scalar" where
  "py_get d k = (case d k of None \<Rightarrow> PNone | Some v \<Rightarrow> v)"

text \<open>The truth value of a string: the empty string is false.\<close>

definition str_truthy :: "string \<Rightarrow> bool" where
  "str_truthy s = (s \<noteq> [])"

subsection \<open>The builtin \<open>int\<close>\<close>

text \<open>
  \<open>int(s)\<close> on a string: surrounding whitespace is dropped, one sign is allowed, and
  the rest is decimal digits, where single underscores may separate digits. Anything else
  raises ValueError. (The interpreter's configurable limit on the number of digits is not
  modelled.)
\<close>

definition is_space :: "char \<Rightarrow> bool" where
  "is_space c = (c \<in> set [CHR 0x09, CHR 0x0A, CHR 0x0B, CHR 0x0C, CHR 0x0D,
                          CHR 0x1C, CHR 0x1D, CHR 0x1E, CHR 0x1F, CHR 0x20])"

definition is_digit :: "char \<Rightarrow> bool" where
  "is_digit c = (c \<in> set ''0123456789'')"

definition digit_val :: "char \<Rightarrow> int" where
  "digit_val c = int (of_char c) - 48"

definition strip :: "string \<Rightarrow> string" where
  "strip s = rev (dropWhile is_space (rev (dropWhile is_space s)))"

fun digits_ok :: "string \<Rightarrow> bool" where
  "digits_ok [] = False"
| "digits_ok [c] = is_digit c"
| "digits_ok (c # d # r) =
     (is_digit c \<and> (if d = CHR ''_'' then digits_ok r else digits_ok (d # r)))"

definition digits_value :: "string \<Rightarrow> int" where
  "digits_value ds = foldl (\<lambda>a c. 10 * a + digit_val c) 0 (filter is_digit ds)"

definition unsigned_int :: "string \<Rightarrow> error + int" where
  "unsigned_int ds = (if digits_ok ds then Inr (digits_value ds) else Inl ValueError)"

definition int_of_str :: "string \<Rightarrow> error + int" where
  "int_of_str s =
     (case strip s of
        [] \<Rightarrow> Inl ValueError
      | c # r \<Rightarrow>
          if c = CHR ''-'' then map_sum id uminus (unsigned_int r)
          else if c = CHR ''+'' then unsigned_int r
          else unsigned_int (c # r))"

fun py_int :: "scalar \<Rightarrow> error + int" where
  "py_int PNone = Inl TypeError"
| "py_int (PBool b) = Inr (if b then 1 else 0)"
| "py_int (PInt i) = Inr i"
| "py_int (PStr s) = int_of_str s"

section \<open>The constants of the protocol base class\<close>

text \<open>
  \<open>VacDevice\<close> reads its constants from the base class \<open>WebackWssCtrl\<close> of the module
  \<open>webackapi\<close>. They are parameters of the model: every function below takes the record of
  constants \<open>K\<close>.
\<close>

record weback_consts =
  IDLE_MODE :: string
  CLEANING_STATES :: "string list"
  CHARGING_STATES :: "string list"
  FAN_DISABLED :: string
  MOP_DISABLED :: string
  NO_FAN_NO_MOP :: int
  VACUUM_ON :: int
  MOP_ON :: int
  FAN_SPEEDS :: "string list"
  MOP_SPEEDS :: "string list"
  SWITCH_VALUES :: "string list"
  ASK_STATUS :: string
  SET_FAN_SPEED :: string
  GOTO_POINT :: string
  RECTANGLE_INFO :: string
  VOICE_SWITCH :: string
  UNDISTURB_MODE :: string
  SELECTED_ZONE :: string
  PLANNING_RECT_POINT_NUM :: string
  PLANNING_RECT_X :: string
  PLANNING_RECT_Y :: string
  CLEAN_MODE_AUTO :: string
  CLEAN_MODE_STOP :: string
  CLEAN_MODE_SPOT :: string
  CLEAN_MODE_ROOMS :: string
  CHARGE_MODE_RETURNING :: string
  ROBOT_LOCATION_SOUND :: string
  ROBOT_PLANNING_LOCATION :: string
  ROBOT_PLANNING_RECT :: string

section \<open>The device\<close>

text \<open>
  The fields of \<open>VacDevice\<close> that the modelled methods read or write. \<open>'m\<close> is the type
  of a loaded map (\<open>VacMap\<close>), \<open>'c\<close> the type of a registered camera. Two fields record
  the calls made on the collaborators: \<open>sent\<close> is the sequence of
  \<open>send_command (name, sub_type, payload)\<close> calls on the transport, \<open>camera_updates\<close>
  the cameras on which \<open>schedule_update_ha_state\<close> was called.
\<close>

record ('m, 'c) vac_device =
  name :: string
  nickname :: string
  sub_type :: string
  robot_status :: status
  map_obj :: "'m option"
  map_image_buffer :: "nat list option"
  map_camera :: "'c option"
  sent :: "(string \<times> string \<times> payload) list"
  camera_updates :: "'c list"

text \<open>\<open>__init__\<close>: no map, no image, no camera; the status is the one given.\<close>

definition init :: "string \<Rightarrow> string \<Rightarrow> string \<Rightarrow> status \<Rightarrow> ('m, 'c) vac_device" where
  "init thing_name thing_nickname sub thing_status =
     \<lparr>name = thing_name, nickname = thing_nickname, sub_type = sub,
      robot_status = thing_status, map_obj = None, map_image_buffer = None,
      map_camera = None, sent = [], camera_updates = []\<rparr>"

subsection \<open>Properties\<close>

definition current_mode :: "weback_consts \<Rightarrow> ('m, 'c) vac_device \<Rightarrow> scalar" where
  "current_mode K d =
     (case robot_status d ''working_status'' of
        Some v \<Rightarrow> v
      | None \<Rightarrow> PStr (IDLE_MODE K))"

definition is_cleaning :: "weback_consts \<Rightarrow> ('m, 'c) vac_device \<Rightarrow> bool" where
  "is_cleaning K d = py_in (current_mode K d) (CLEANING_STATES K)"

definition is_available :: "('m, 'c) vac_device \<Rightarrow> bool" where
  "is_available d =
     (let connected = py_get (robot_status d) ''connected''
      in if connected \<noteq> PNone then py_eq connected (PStr ''true'') else False)"

definition is_charging :: "weback_consts \<Rightarrow> ('m, 'c) vac_device \<Rightarrow> bool" where
  "is_charging K d = py_in (current_mode K d) (CHARGING_STATES K)"

definition battery_level :: "('m, 'c) vac_device \<Rightarrow> error + int" where
  "battery_level d =
     (if ''battery_level'' \<in> dom (robot_status d)
      then (case py_getitem (robot_status d) ''battery_level'' of
              Inl e \<Rightarrow> Inl e
            | Inr v \<Rightarrow> py_int v)
      else Inr 0)"

text \<open>
  The test of \<open>vacuum_or_mop\<close> is \<open>"fan_status" and "water_level" in self.robot_status\<close>:
  \<open>in\<close> binds tighter than \<open>and\<close>, so it is the truth value of the string
  \<open>"fan_status"\<close> and then the membership of \<open>"water_level"\<close>. The second operand of the
  inner \<open>and\<close> is read only when the first holds.
\<close>

definition vacuum_or_mop :: "weback_consts \<Rightarrow> ('m, 'c) vac_device \<Rightarrow> error + int" where
  "vacuum_or_mop K d =
     (if str_truthy ''fan_status'' \<and> ''water_level'' \<in> dom (robot_status d)
      then (case py_getitem (robot_status d) ''fan_status'' of
              Inl e \<Rightarrow> Inl e
            | Inr f \<Rightarrow>
                if py_eq f (PStr (FAN_DISABLED K))
                then (case py_getitem (robot_status d) ''water_level'' of
                        Inl e \<Rightarrow> Inl e
                      | Inr w \<Rightarrow>
                          if \<not> py_eq w (PStr (MOP_DISABLED K))
                          then Inr (MOP_ON K) else Inr (VACUUM_ON K))
                else Inr (VACUUM_ON K))
      else Inr (NO_FAN_NO_MOP K))"

subsection \<open>Commands\<close>

text \<open>
  Modelled from the spec: \<open>send_command\<close> belongs to the transport base class, which is
  not part of the module. The model is the recording collaborator of the spec's section 8:
  the call is appended to \<open>sent\<close> and succeeds.
\<close>

definition send_command ::
  "('m, 'c) vac_device \<Rightarrow> string \<Rightarrow> string \<Rightarrow> payload \<Rightarrow> error + ('m, 'c) vac_device" where
  "send_command d thing sub working_payload = Inr (d\<lparr>sent := sent d @ [(thing, sub, working_payload)]\<rparr>)"

definition set_fan_water_speed ::
  "weback_consts \<Rightarrow> scalar \<Rightarrow> ('m, 'c) vac_device \<Rightarrow> error + ('m, 'c) vac_device" where
  "set_fan_water_speed K speed d =
     (if \<not> is_cleaning K d then Inr d
      else if \<not> py_in speed (FAN_SPEEDS K) \<and> \<not> py_in speed (MOP_SPEEDS K) then Inr d
      else send_command d (name d) (sub_type d) [SET_FAN_SPEED K \<mapsto> Scalar speed])"

definition turn_on :: "weback_consts \<Rightarrow> ('m, 'c) vac_device \<Rightarrow> error + ('m, 'c) vac_device" where
  "turn_on K d =
     send_command d (name d) (sub_type d) [ASK_STATUS K \<mapsto> Scalar (PStr (CLEAN_MODE_AUTO K))]"

definition turn_off :: "weback_consts \<Rightarrow> ('m, 'c) vac_device \<Rightarrow> error + ('m, 'c) vac_device" where
  "turn_off K d =
     send_command d (name d) (sub_type d)
       [ASK_STATUS K \<mapsto> Scalar (PStr (CHARGE_MODE_RETURNING K))]"

definition return_to_base ::
  "weback_consts \<Rightarrow> ('m, 'c) vac_device \<Rightarrow> error + ('m, 'c) vac_device" where
  "return_to_base K d =
     send_command d (name d) (sub_type d)
       [ASK_STATUS K \<mapsto> Scalar (PStr (CHARGE_MODE_RETURNING K))]"

definition goto ::
  "weback_consts \<Rightarrow> scalar \<Rightarrow> ('m, 'c) vac_device \<Rightarrow> error + ('m, 'c) vac_device" where
  "goto K point d =
     send_command d (name d) (sub_type d)
       [ASK_STATUS K \<mapsto> Scalar (PStr (ROBOT_PLANNING_LOCATION K)),
        GOTO_POINT K \<mapsto> Scalar point]"

definition clean_rect ::
  "weback_consts \<Rightarrow> scalar \<Rightarrow> ('m, 'c) vac_device \<Rightarrow> error + ('m, 'c) vac_device" where
  "clean_rect K rectangle d =
     send_command d (name d) (sub_type d)
       [ASK_STATUS K \<mapsto> Scalar (PStr (ROBOT_PLANNING_RECT K)),
        RECTANGLE_INFO K \<mapsto> Scalar rectangle]"

definition voice_mode ::
  "weback_consts \<Rightarrow> scalar \<Rightarrow> ('m, 'c) vac_device \<Rightarrow> error + ('m, 'c) vac_device" where
  "voice_mode K state d =
     (if py_in state (SWITCH_VALUES K)
      then send_command d (name d) (sub_type d) [VOICE_SWITCH K \<mapsto> Scalar state]
      else Inr d)"

definition undisturb_mode ::
  "weback_consts \<Rightarrow> scalar \<Rightarrow> ('m, 'c) vac_device \<Rightarrow> error + ('m, 'c) vac_device" where
  "undisturb_mode K state d =
     (if py_in state (SWITCH_VALUES K)
      then send_command d (name d) (sub_type d) [UNDISTURB_MODE K \<mapsto> Scalar state]
      else Inr d)"

text \<open>The loop of \<open>clean_room\<close>: one \<open>dict(room_id=room_id)\<close> appended for each id.\<close>

fun room_loop :: "scalar list \<Rightarrow> (string \<rightharpoonup> scalar) list \<Rightarrow> (string \<rightharpoonup> scalar) list" where
  "room_loop [] room_data = room_data"
| "room_loop (room_id # rest) room_data = room_loop rest (room_data @ [[''room_id'' \<mapsto> room_id]])"

definition clean_room ::
  "weback_consts \<Rightarrow> scalar list \<Rightarrow> ('m, 'c) vac_device \<Rightarrow> error + ('m, 'c) vac_device" where
  "clean_room K room_ids_list d =
     (let room_data = room_loop room_ids_list []
      in send_command d (name d) (sub_type d)
           [ASK_STATUS K \<mapsto> Scalar (PStr (CLEAN_MODE_ROOMS K)),
            SELECTED_ZONE K \<mapsto> DictList room_data])"

text \<open>
  \<open>int(box[i] / 10)\<close> on integer coordinates. \<open>/\<close> is true division and \<open>int\<close> drops the
  fraction, towards zero. The quotient is modelled as an exact rational (the double that
  Python computes has the same integer part for the coordinates of a map, which are far
  below \<open>2^53\<close>).
\<close>

definition truediv10 :: "int \<Rightarrow> rat" where
  "truediv10 x = of_int x / 10"

definition int_of_float :: "rat \<Rightarrow> int" where
  "int_of_float q = (if 0 \<le> q then \<lfloor>q\<rfloor> else \<lceil>q\<rceil>)"

definition scale10 :: "int \<Rightarrow> int" where
  "scale10 x = int_of_float (truediv10 x)"

text \<open>\<open>box[i]\<close> for a literal index \<open>i\<close>: IndexError past the end of the list.\<close>

definition py_index :: "int list \<Rightarrow> nat \<Rightarrow> error + int" where
  "py_index xs i = (if i < length xs then Inr (xs ! i) else Inl IndexError)"

definition bind_err :: "error + 'a \<Rightarrow> ('a \<Rightarrow> error + 'b) \<Rightarrow> error + 'b" where
  "bind_err r f = (case r of Inl e \<Rightarrow> Inl e | Inr v \<Rightarrow> f v)"

text \<open>The body of the loop of \<open>clean_zone\<close>: the eight appends, in the order of the source.\<close>

definition zone_step :: "int list \<Rightarrow> int list \<times> int list \<Rightarrow> error + (int list \<times> int list)" where
  "zone_step box acc =
     bind_err (py_index box 0) (\<lambda>a1.
     bind_err (py_index box 0) (\<lambda>a2.
     bind_err (py_index box 2) (\<lambda>a3.
     bind_err (py_index box 2) (\<lambda>a4.
     bind_err (py_index box 1) (\<lambda>b1.
     bind_err (py_index box 3) (\<lambda>b2.
     bind_err (py_index box 3) (\<lambda>b3.
     bind_err (py_index box 1) (\<lambda>b4.
       Inr (fst acc @ [scale10 a1, scale10 a2, scale10 a3, scale10 a4],
            snd acc @ [scale10 b1, scale10 b2, scale10 b3, scale10 b4])))))))))"



subsection \<open>Map rendering\<close>

text \<open>
  Modelled from the spec: \<open>VacMapDraw\<close> (module \<open>vacmap\<close>) and the image encoder are not
  part of the module. By the spec's section 4.3 the pipeline is a pure function of the map,
  stage by stage; the stages are the fields of this record: the constructor, the three
  overlays, \<open>get_image\<close>, and \<open>save_png\<close> for \<open>img.save(buffer, format="PNG")\<close> followed by
  \<open>getvalue()\<close>.
\<close>

record ('m, 'w, 'i) vac_map_draw =
  VacMapDraw :: "'m \<Rightarrow> 'w"
  draw_charger_point :: "'w \<Rightarrow> 'w"
  draw_path :: "'w \<Rightarrow> 'w"
  draw_robot_position :: "'w \<Rightarrow> 'w"
  get_image :: "'w \<Rightarrow> 'i"
  save_png :: "'i \<Rightarrow> nat list"

definition register_map_camera :: "'c option \<Rightarrow> ('m, 'c) vac_device \<Rightarrow> ('m, 'c) vac_device" where
  "register_map_camera camera d = d\<lparr>map_camera := camera\<rparr>"

definition trigger_map_camera_update :: "('m, 'c) vac_device \<Rightarrow> ('m, 'c) vac_device" where
  "trigger_map_camera_update d =
     (case map_camera d of
        Some camera \<Rightarrow> d\<lparr>camera_updates := camera_updates d @ [camera]\<rparr>
      | None \<Rightarrow> d)"

text \<open>\<open>render_map\<close> returns its boolean and the device after the call. A map that is
  loaded is an object and counts as true; \<open>None\<close> counts as false.\<close>

definition render_map ::
  "('m, 'w, 'i) vac_map_draw \<Rightarrow> ('m, 'c) vac_device \<Rightarrow> bool \<times> ('m, 'c) vac_device" where
  "render_map R d =
     (case map_obj d of
        None \<Rightarrow> (False, d)
      | Some m \<Rightarrow>
          (let vac_map_draw = VacMapDraw R m;
               vac_map_draw = draw_charger_point R vac_map_draw;
               vac_map_draw = draw_path R vac_map_draw;
               vac_map_draw = draw_robot_position R vac_map_draw;
               img = get_image R vac_map_draw;
               d = d\<lparr>map_image_buffer := Some (save_png R img)\<rparr>;
               d = (if map_camera d \<noteq> None then trigger_map_camera_update d else d)
           in (True, d)))"

section \<open>Concrete inputs\<close>

text \<open>
  An instance of the constants, for evaluating the model on concrete inputs. The keys and
  the command values are written as the tables of the specification write them; the
  members of the sets and the sentinels, which the specification leaves open, are samples.
\<close>

definition spec_consts :: weback_consts where
  "spec_consts =
     \<lparr>IDLE_MODE = ''IDLE'',
      CLEANING_STATES = [''AUTO_CLEAN'', ''SPOT_CLEAN'', ''CLEAN_ROOMS'', ''PLAN_RECT''],
      CHARGING_STATES = [''CHARGING''],
      FAN_DISABLED = ''FAN_DISABLED'',
      MOP_DISABLED = ''MOP_DISABLED'',
      NO_FAN_NO_MOP = 0,
      VACUUM_ON = 1,
      MOP_ON = 2,
      FAN_SPEEDS = [''QUIET'', ''NORMAL'', ''HIGH''],
      MOP_SPEEDS = [''LOW'', ''DEFAULT'', ''MAX''],
      SWITCH_VALUES = [''on'', ''off''],
      ASK_STATUS = ''status'',
      SET_FAN_SPEED = ''set_fan_speed'',
      GOTO_POINT = ''goto_point'',
      RECTANGLE_INFO = ''rectangle'',
      VOICE_SWITCH = ''voice_switch'',
      UNDISTURB_MODE = ''undisturb_mode'',
      SELECTED_ZONE = ''selected_zone'',
      PLANNING_RECT_POINT_NUM = ''point_num'',
      PLANNING_RECT_X = ''X'',
      PLANNING_RECT_Y = ''Y'',
      CLEAN_MODE_AUTO = ''AUTO_CLEAN'',
      CLEAN_MODE_STOP = ''CLEAN_STOP'',
      CLEAN_MODE_SPOT = ''SPOT_CLEAN'',
      CLEAN_MODE_ROOMS = ''CLEAN_ROOMS'',
      CHARGE_MODE_RETURNING = ''RETURN_CHARGE'',
      ROBOT_LOCATION_SOUND = ''LOCATION_SOUND'',
      ROBOT_PLANNING_LOCATION = ''PLAN_LOCATION'',
      ROBOT_PLANNING_RECT = ''PLAN_RECT''\<rparr>"

text \<open>A freshly constructed device with the given status; its maps are lists of numbers.\<close>

definition robot :: "status \<Rightarrow> (nat list, unit) vac_device" where
  "robot thing_status = init ''robot'' ''Robot'' ''vacuum'' thing_status"

text \<open>A sample drawing pipeline: each stage leaves its mark on the list.\<close>

definition plain_draw :: "(nat list, nat list, nat list) vac_map_draw" where
  "plain_draw =
     \<lparr>VacMapDraw = (\<lambda>m. m), draw_charger_point = (\<lambda>w. w @ [1]), draw_path = (\<lambda>w. w @ [2]),
      draw_robot_position = (\<lambda>w. w @ [3]), get_image = (\<lambda>w. w), save_png = (\<lambda>i. 137 # i)\<rparr>"

section \<open>Notions of the specification\<close>





text \<open>
  The strings that \<open>int\<close> accepts, as the language reference words it: decimal digits,
  with single underscores allowed between digits, after an optional sign, the whole
  surrounded by optional whitespace.
\<close>

inductive digit_seq :: "string \<Rightarrow> bool" where
  one: "is_digit c \<Longrightarrow> digit_seq [c]"
| more: "is_digit c \<Longrightarrow> digit_seq r \<Longrightarrow> digit_seq (c # r)"
| underscore: "is_digit c \<Longrightarrow> digit_seq r \<Longrightarrow> digit_seq (c # CHR ''_'' # r)"


section \<open>Python primitives\<close>

lemma py_eq_str: "py_eq v (PStr s) \<longleftrightarrow> v = PStr s"
  by (cases v) auto

lemma py_in_iff: "py_in v S \<longleftrightarrow> (\<exists>c \<in> set S. v = PStr c)"
  by (cases v) (auto simp: py_in_def list_ex_iff)

lemma floor10: "\<lfloor>(of_int x :: rat) / 10\<rfloor> = x div 10"
  using floor_divide_of_int_eq [of x 10, where ?'a = rat] by simp

lemma ceiling10: "\<lceil>(of_int x :: rat) / 10\<rceil> = - ((- x) div 10)"
  unfolding ceiling_def using floor_divide_of_int_eq [of "- x" 10, where ?'a = rat] by simp

text \<open>\<open>int(x / 10)\<close> is the quotient truncated towards zero.\<close>

lemma scale10_sdiv: "scale10 x = x sdiv 10"
proof (cases "0 \<le> x")
  case True
  then have "(0::rat) \<le> of_int x / 10" by simp
  with True show ?thesis
    by (simp add: scale10_def int_of_float_def truediv10_def floor10 signed_divide_int_def sgn_if)
next
  case False
  then have "\<not> (0::rat) \<le> of_int x / 10" by simp
  with False show ?thesis
    by (simp add: scale10_def int_of_float_def truediv10_def ceiling10 signed_divide_int_def sgn_if)
qed

lemma scale10_nonneg: "0 \<le> x \<Longrightarrow> scale10 x = x div 10"
  by (simp add: scale10_sdiv signed_divide_int_def sgn_if)

lemma scale10_negative_example: "scale10 (- 5) = 0 \<and> (- 5 :: int) div 10 = - 1"
  by (simp add: scale10_sdiv signed_divide_int_def)

section \<open>Status properties\<close>

text \<open>
  The three outcomes of \<open>vacuum_or_mop\<close>. Only \<open>water_level\<close> is tested for presence,
  so a status with \<open>water_level\<close> and without \<open>fan_status\<close> raises KeyError.
\<close>

lemma vacuum_or_mop_cases:
  "vacuum_or_mop K d =
     (case robot_status d ''water_level'' of
        None \<Rightarrow> Inr (NO_FAN_NO_MOP K)
      | Some w \<Rightarrow>
          (case robot_status d ''fan_status'' of
             None \<Rightarrow> Inl (KeyError ''fan_status'')
           | Some f \<Rightarrow>
               if f = PStr (FAN_DISABLED K) \<and> w \<noteq> PStr (MOP_DISABLED K)
               then Inr (MOP_ON K) else Inr (VACUUM_ON K)))"
  by (auto simp: vacuum_or_mop_def py_getitem_def str_truthy_def py_eq_str dom_def
      split: option.splits)

text \<open>
  C1. The claim: \<open>vacuum_or_mop\<close> returns \<open>NO_FAN_NO_MOP\<close> when either key is absent and
  never raises for a missing key. The code: on the status \<open>{"water_level": "LOW"}\<close>, where
  \<open>fan_status\<close> is absent, the accessor raises \<open>KeyError('fan_status')\<close>.
\<close>

theorem vacuum_or_mop_fan_status_absent_raises:
  "vacuum_or_mop spec_consts (robot [''water_level'' \<mapsto> PStr ''LOW'']) = Inl (KeyError ''fan_status'')"
  by (simp add: vacuum_or_mop_def robot_def init_def py_getitem_def str_truthy_def)

text \<open>
  C6. \<open>is_available\<close> is true exactly when the key \<open>connected\<close> is present with the
  string \<open>"true"\<close>: an absent key, any other string and a boolean all give false.
\<close>

theorem is_available_iff:
  "(is_available d \<longleftrightarrow> robot_status d ''connected'' = Some (PStr ''true''))
   \<and> (robot_status d ''connected'' = None \<longrightarrow> \<not> is_available d)
   \<and> (\<forall>s. s \<noteq> ''true'' \<longrightarrow> robot_status d ''connected'' = Some (PStr s) \<longrightarrow> \<not> is_available d)
   \<and> (\<forall>b. robot_status d ''connected'' = Some (PBool b) \<longrightarrow> \<not> is_available d)"
  by (auto simp: is_available_def py_get_def Let_def py_eq_str split: option.splits)

theorem is_available_iff_witness:
  "is_available (robot [''connected'' \<mapsto> PStr ''true''])
   \<and> \<not> is_available (robot Map.empty)
   \<and> \<not> is_available (robot [''connected'' \<mapsto> PStr ''True''])
   \<and> \<not> is_available (robot [''connected'' \<mapsto> PBool True])"
  using is_available_iff [of "robot [''connected'' \<mapsto> PStr ''true'']"]
    is_available_iff [of "robot Map.empty"]
    is_available_iff [of "robot [''connected'' \<mapsto> PStr ''True'']"]
    is_available_iff [of "robot [''connected'' \<mapsto> PBool True]"]
  by (simp add: robot_def init_def)

text \<open>
  C7. The mode is the value of \<open>working_status\<close> when the key is present and \<open>IDLE_MODE\<close>
  when it is absent; \<open>is_charging\<close> is true exactly when the mode is a member of
  \<open>CHARGING_STATES\<close>, so a string outside the set gives false.
\<close>

theorem mode_and_is_charging:
  "(\<forall>v. robot_status d ''working_status'' = Some v \<longrightarrow> current_mode K d = v)
   \<and> (robot_status d ''working_status'' = None \<longrightarrow> current_mode K d = PStr (IDLE_MODE K))
   \<and> (is_charging K d \<longleftrightarrow> current_mode K d \<in> PStr ` set (CHARGING_STATES K))
   \<and> (\<forall>s. s \<notin> set (CHARGING_STATES K) \<longrightarrow> robot_status d ''working_status'' = Some (PStr s)
          \<longrightarrow> \<not> is_charging K d)"
  by (auto simp: current_mode_def is_charging_def py_in_iff)

theorem mode_and_is_charging_witness:
  "current_mode spec_consts (robot [''working_status'' \<mapsto> PStr ''CHARGING'']) = PStr ''CHARGING''
   \<and> current_mode spec_consts (robot Map.empty) = PStr ''IDLE''
   \<and> is_charging spec_consts (robot [''working_status'' \<mapsto> PStr ''CHARGING''])
   \<and> \<not> is_charging spec_consts (robot [''working_status'' \<mapsto> PStr ''no such mode''])"
  using mode_and_is_charging [of "robot [''working_status'' \<mapsto> PStr ''CHARGING'']" spec_consts]
    mode_and_is_charging [of "robot Map.empty" spec_consts]
    mode_and_is_charging [of "robot [''working_status'' \<mapsto> PStr ''no such mode'']" spec_consts]
  by (simp add: robot_def init_def spec_consts_def)

section \<open>The builtin \<open>int\<close> on strings\<close>

text \<open>The parser accepts exactly the strings of the grammar \<open>int_literal\<close>.\<close>

lemma digits_ok_hd: "digits_ok (d # r) \<Longrightarrow> is_digit d"
  by (cases r) simp_all

lemma underscore_no_digit: "\<not> is_digit (CHR ''_'')"
  by (simp add: is_digit_def)

lemma digits_ok_imp_seq: "digits_ok ds \<Longrightarrow> digit_seq ds"
proof (induction ds rule: digits_ok.induct)
  case 1
  then show ?case by simp
next
  case (2 c)
  then show ?case by (simp add: digit_seq.one)
next
  case (3 c d r)
  then show ?case by (auto intro: digit_seq.intros split: if_splits)
qed

lemma digit_seq_imp_ok: "digit_seq ds \<Longrightarrow> digits_ok ds"
proof (induction ds rule: digit_seq.induct)
  case (one c)
  then show ?case by simp
next
  case (more c r)
  then obtain d r' where r: "r = d # r'" by (cases r) auto
  with more have "is_digit d" by (auto dest: digits_ok_hd)
  then have "d \<noteq> CHR ''_''" using underscore_no_digit by auto
  with more r show ?case by simp
next
  case (underscore c r)
  then show ?case by simp
qed

lemma digits_ok_iff: "digits_ok ds \<longleftrightarrow> digit_seq ds"
  using digits_ok_imp_seq digit_seq_imp_ok by blast















lemma battery_level_parsed:
  "battery_level (robot [''battery_level'' \<mapsto> PStr ''87'']) = Inr 87
   \<and> battery_level (robot [''battery_level'' \<mapsto> PInt 42]) = Inr 42"
  by (simp add: battery_level_def py_getitem_def robot_def init_def int_of_str_def strip_def
      is_space_def unsigned_int_def is_digit_def digits_value_def digit_val_def)

section \<open>Commands\<close>

lemma room_loop_eq: "room_loop ids acc = acc @ map (\<lambda>i. [''room_id'' \<mapsto> i]) ids"
  by (induction ids arbitrary: acc) simp_all



text \<open>A box with fewer than four entries stops the command with IndexError.\<close>

lemma zone_step_short: "length box < 4 \<Longrightarrow> zone_step box acc = Inl IndexError"
proof -
  assume "length box < 4"
  then consider "length box = 0" | "length box = 1" | "length box = 2" | "length box = 3"
    by linarith
  then show ?thesis
    by cases (simp_all add: zone_step_def bind_err_def py_index_def)
qed



text \<open>
  C5. \<open>set_fan_water_speed\<close> sends \<open>{SET_FAN_SPEED: v}\<close> exactly when the device is
  cleaning and \<open>v\<close> is an allowed fan speed or an allowed mop speed; otherwise the device,
  and with it the transport, is unchanged. No branch raises.
\<close>

theorem set_fan_water_speed_sends_iff:
  "set_fan_water_speed K v d =
     Inr (if is_cleaning K d \<and> (py_in v (FAN_SPEEDS K) \<or> py_in v (MOP_SPEEDS K))
          then d\<lparr>sent := sent d @ [(name d, sub_type d, [SET_FAN_SPEED K \<mapsto> Scalar v])]\<rparr>
          else d)"
  by (simp add: set_fan_water_speed_def send_command_def)

theorem set_fan_water_speed_sends_iff_witness:
  "set_fan_water_speed spec_consts (PStr ''QUIET'') (robot [''working_status'' \<mapsto> PStr ''AUTO_CLEAN'']) =
     Inr ((robot [''working_status'' \<mapsto> PStr ''AUTO_CLEAN''])\<lparr>sent :=
        [(''robot'', ''vacuum'', [''set_fan_speed'' \<mapsto> Scalar (PStr ''QUIET'')])]\<rparr>)
   \<and> set_fan_water_speed spec_consts (PStr ''QUIET'') (robot Map.empty) = Inr (robot Map.empty)
   \<and> set_fan_water_speed spec_consts (PStr ''TURBO'') (robot [''working_status'' \<mapsto> PStr ''AUTO_CLEAN'']) =
     Inr (robot [''working_status'' \<mapsto> PStr ''AUTO_CLEAN''])"
  using set_fan_water_speed_sends_iff [of spec_consts "PStr ''QUIET''" "robot [''working_status'' \<mapsto> PStr ''AUTO_CLEAN'']"]
    set_fan_water_speed_sends_iff [of spec_consts "PStr ''QUIET''" "robot Map.empty"]
    set_fan_water_speed_sends_iff [of spec_consts "PStr ''TURBO''" "robot [''working_status'' \<mapsto> PStr ''AUTO_CLEAN'']"]
  by (simp add: spec_consts_def robot_def init_def is_cleaning_def current_mode_def py_in_def)

text \<open>
  C9. \<open>turn_off\<close> and \<open>return_to_base\<close> do the same: each sends exactly
  \<open>{ASK_STATUS: CHARGE_MODE_RETURNING}\<close>, whatever the state of the device.
\<close>

theorem turn_off_same_as_return_to_base:
  "turn_off K d = return_to_base K d
   \<and> turn_off K d =
       Inr (d\<lparr>sent := sent d @
              [(name d, sub_type d, [ASK_STATUS K \<mapsto> Scalar (PStr (CHARGE_MODE_RETURNING K))])]\<rparr>)"
  by (simp add: turn_off_def return_to_base_def send_command_def)

theorem turn_off_same_as_return_to_base_witness:
  "turn_off spec_consts (robot Map.empty) =
     Inr ((robot Map.empty)\<lparr>sent :=
        [(''robot'', ''vacuum'', [''status'' \<mapsto> Scalar (PStr ''RETURN_CHARGE'')])]\<rparr>)
   \<and> return_to_base spec_consts (robot Map.empty) =
     Inr ((robot Map.empty)\<lparr>sent :=
        [(''robot'', ''vacuum'', [''status'' \<mapsto> Scalar (PStr ''RETURN_CHARGE'')])]\<rparr>)"
proof -
  note both = turn_off_same_as_return_to_base [of spec_consts "robot Map.empty"]
  have payload:
    "(robot Map.empty)\<lparr>sent := sent (robot Map.empty) @
        [(name (robot Map.empty), sub_type (robot Map.empty),
          [ASK_STATUS spec_consts \<mapsto> Scalar (PStr (CHARGE_MODE_RETURNING spec_consts))])]\<rparr>
     = (robot Map.empty)\<lparr>sent :=
        [(''robot'', ''vacuum'', [''status'' \<mapsto> Scalar (PStr ''RETURN_CHARGE'')])]\<rparr>"
    by (simp add: spec_consts_def robot_def init_def)
  have off: "turn_off spec_consts (robot Map.empty) =
     Inr ((robot Map.empty)\<lparr>sent :=
        [(''robot'', ''vacuum'', [''status'' \<mapsto> Scalar (PStr ''RETURN_CHARGE'')])]\<rparr>)"
    using both [THEN conjunct2] unfolding payload .
  moreover have "return_to_base spec_consts (robot Map.empty) = turn_off spec_consts (robot Map.empty)"
    using both [THEN conjunct1] by (rule sym)
  ultimately show ?thesis by (intro conjI) (rule off, rule trans)
qed

text \<open>
  C2. The claim: an operation whose precondition fails sends nothing, and \<open>clean_room\<close>
  with an empty list of rooms sends nothing. The code: \<open>clean_room\<close> tests nothing, and
  on the empty list it sends \<open>{status: CLEAN_ROOMS, selected_zone: []}\<close>.
\<close>

theorem clean_room_empty_list_sends:
  "clean_room spec_consts [] (robot Map.empty) =
     Inr ((robot Map.empty)\<lparr>sent :=
        [(''robot'', ''vacuum'',
          [''status'' \<mapsto> Scalar (PStr ''CLEAN_ROOMS''), ''selected_zone'' \<mapsto> DictList []])]\<rparr>)"
  by (simp add: clean_room_def send_command_def robot_def init_def spec_consts_def)

text \<open>
  C2, amended. The operations that test a precondition (\<open>set_fan_water_speed\<close>,
  \<open>voice_mode\<close>, \<open>undisturb_mode\<close>) send nothing and raise nothing when the test fails: the
  device is returned unchanged. \<open>clean_room\<close>, \<open>goto\<close> and \<open>clean_rect\<close> test nothing:
  for every argument, the empty list of rooms included, they send their payload.
\<close>

theorem checked_preconditions_reject_locally:
  "(\<not> (is_cleaning K d \<and> (py_in v (FAN_SPEEDS K) \<or> py_in v (MOP_SPEEDS K)))
      \<longrightarrow> set_fan_water_speed K v d = Inr d)
   \<and> (\<not> py_in st (SWITCH_VALUES K) \<longrightarrow> voice_mode K st d = Inr d \<and> undisturb_mode K st d = Inr d)
   \<and> clean_room K ids d =
       Inr (d\<lparr>sent := sent d @
          [(name d, sub_type d,
            [ASK_STATUS K \<mapsto> Scalar (PStr (CLEAN_MODE_ROOMS K)),
             SELECTED_ZONE K \<mapsto> DictList (map (\<lambda>i. [''room_id'' \<mapsto> i]) ids)])]\<rparr>)
   \<and> goto K point d =
       Inr (d\<lparr>sent := sent d @
          [(name d, sub_type d,
            [ASK_STATUS K \<mapsto> Scalar (PStr (ROBOT_PLANNING_LOCATION K)),
             GOTO_POINT K \<mapsto> Scalar point])]\<rparr>)
   \<and> clean_rect K rectangle d =
       Inr (d\<lparr>sent := sent d @
          [(name d, sub_type d,
            [ASK_STATUS K \<mapsto> Scalar (PStr (ROBOT_PLANNING_RECT K)),
             RECTANGLE_INFO K \<mapsto> Scalar rectangle])]\<rparr>)"
  by (simp add: set_fan_water_speed_def voice_mode_def undisturb_mode_def clean_room_def
      goto_def clean_rect_def room_loop_eq send_command_def)

theorem checked_preconditions_reject_locally_witness:
  "\<not> is_cleaning spec_consts (robot Map.empty)
   \<and> set_fan_water_speed spec_consts (PStr ''QUIET'') (robot Map.empty) = Inr (robot Map.empty)
   \<and> \<not> py_in (PStr ''maybe'') (SWITCH_VALUES spec_consts)
   \<and> voice_mode spec_consts (PStr ''maybe'') (robot Map.empty) = Inr (robot Map.empty)
   \<and> undisturb_mode spec_consts (PStr ''maybe'') (robot Map.empty) = Inr (robot Map.empty)
   \<and> clean_room spec_consts [PInt 3] (robot Map.empty) =
       Inr ((robot Map.empty)\<lparr>sent :=
          [(''robot'', ''vacuum'',
            [''status'' \<mapsto> Scalar (PStr ''CLEAN_ROOMS''),
             ''selected_zone'' \<mapsto> DictList [[''room_id'' \<mapsto> PInt 3]]])]\<rparr>)"
  using checked_preconditions_reject_locally
    [of spec_consts "robot Map.empty" "PStr ''QUIET''" "PStr ''maybe''" "[PInt 3]"]
  by (simp add: robot_def init_def spec_consts_def is_cleaning_def current_mode_def py_in_def)

section \<open>Map rendering\<close>




text \<open>
  C10. With no map loaded, \<open>render_map\<close> returns False and the device is unchanged: the
  image buffer keeps its value and no camera is notified.
\<close>

theorem render_map_without_map:
  "map_obj d = None \<Longrightarrow> render_map R d = (False, d)"
  by (simp add: render_map_def)

theorem render_map_without_map_witness:
  "map_obj (register_map_camera (Some ()) (robot Map.empty)) = None
   \<and> render_map plain_draw (register_map_camera (Some ()) (robot Map.empty))
       = (False, register_map_camera (Some ()) (robot Map.empty))
   \<and> map_image_buffer (snd (render_map plain_draw (register_map_camera (Some ()) (robot Map.empty)))) = None
   \<and> camera_updates (snd (render_map plain_draw (register_map_camera (Some ()) (robot Map.empty)))) = []"
proof -
  have h: "map_obj (register_map_camera (Some ()) (robot Map.empty)) = None"
    by (simp add: register_map_camera_def robot_def init_def)
  show ?thesis
    using h render_map_without_map [OF h, of plain_draw]
    by (simp add: register_map_camera_def robot_def init_def)
qed

end
